theory Spec2Isabelle
  imports Complex_Main
begin

section \<open>Python values and exceptions\<close>

text \<open>
  The notebook is five cells of Python. Its values are modelled by one datatype of the
  built-in objects the cells handle. A string is the sequence of its Unicode code points;
  \<open>codepoints\<close> gives the string of an ASCII literal. An exception raised is the \<open>Inl\<close> of a
  sum; its message is kept as written.
\<close>

datatype exn =
    ValueError string
  | TypeError string
  | AttributeError string
  | KeyError string
  | NotImplementedError string
  | ImportError string
  | ModuleNotFoundError string
  | DatabaseError string
  | PicklingError string

datatype pyval =
    PyNone
  | PyBool bool
  | PyInt int
  | PyStr "nat list"
  | PyList "pyval list"
  | PyTuple "pyval list"
  | PyDict "(pyval \<times> pyval) list"
  | PyFunction string

definition codepoints :: "string \<Rightarrow> nat list" where
  "codepoints s = map of_char s"

section \<open>Batched\<close>

text \<open>
  \<^verbatim>\<open>
  DATA = [1] * 20000
  MAX_WORKERS = 50
  BATCH_SIZE = 400
  SLEEP_TIME = 0.001
  \<close>
\<close>

definition DATA :: "int list" where
  "DATA = replicate 20000 1"

definition MAX_WORKERS :: int where
  "MAX_WORKERS = 50"

definition BATCH_SIZE :: int where
  "BATCH_SIZE = 400"

text \<open>
  \<open>itertools.batched(iterable, n)\<close> (and the \<open>more_itertools\<close> function of the same
  name that the cell falls back to) is, in the words of the library's documentation,
  \<^verbatim>\<open>
  def batched(iterable, n):
      if n < 1:
          raise ValueError('n must be at least one')
      it = iter(iterable)
      while batch := tuple(islice(it, n)):
          yield batch
  \<close>
  The iterator \<open>it\<close> is the list of the elements not yet consumed; \<open>islice(it, n)\<close>
  takes the first \<open>n\<close> of them and leaves the rest.
\<close>

function batched_loop :: "nat \<Rightarrow> 'a list \<Rightarrow> 'a list list" where
  "batched_loop n it =
     (let batch = take n it
      in if batch = [] then [] else batch # batched_loop n (drop n it))"
  by pat_completeness auto
termination
  by (relation "measure (\<lambda>(n, it). length it)") auto

declare batched_loop.simps [simp del]

definition batched :: "'a list \<Rightarrow> int \<Rightarrow> exn + 'a list list" where
  "batched iterable n =
     (if n < 1 then Inl (ValueError ''n must be at least one'')
      else Inr (batched_loop (nat n) iterable))"

subsection \<open>The benchmark\<close>

text \<open>
  \<^verbatim>\<open>
  def simulate_io_operation(*args, **kwargs):
      sleep(SLEEP_TIME)

  def process_data(item):
      simulate_io_operation(item)

  def process_data_in_batch(items):
      for item in items:
          simulate_io_operation(item)
  \<close>
  The state of a task is the list of the delays it has asked \<open>sleep\<close> for, in seconds;
  \<open>SLEEP_TIME\<close> is the millisecond.
\<close>

definition SLEEP_TIME :: rat where
  "SLEEP_TIME = 1 / 1000"

definition sleep :: "rat \<Rightarrow> rat list \<Rightarrow> rat list" where
  "sleep secs slept = slept @ [secs]"

definition simulate_io_operation :: "'a \<Rightarrow> rat list \<Rightarrow> rat list" where
  "simulate_io_operation args slept = sleep SLEEP_TIME slept"

definition process_data :: "'a \<Rightarrow> rat list \<Rightarrow> rat list" where
  "process_data item slept = simulate_io_operation item slept"

definition process_data_in_batch :: "'a list \<Rightarrow> rat list \<Rightarrow> rat list" where
  "process_data_in_batch items slept = fold (\<lambda>item. simulate_io_operation item) items slept"

text \<open>
  \<^verbatim>\<open>
  def test_single():
      with ThreadPoolExecutor(max_workers=MAX_WORKERS) as executor:
          results = executor.map(process_data, DATA)

  def test_batch():
      with ThreadPoolExecutor(max_workers=MAX_WORKERS) as executor:
          results = executor.map(process_data_in_batch, batched(DATA, BATCH_SIZE))
  \<close>
  \<open>executor.map(fn, iterable)\<close> submits one task \<open>fn(x)\<close> for each \<open>x\<close> of the iterable, in
  order. A benchmark is recorded by the delays of each task it submitted; which worker
  runs a task, and when, is left out.
\<close>

definition executor_map :: "('a \<Rightarrow> rat list \<Rightarrow> rat list) \<Rightarrow> 'a list \<Rightarrow> rat list list" where
  "executor_map fn iterable = map (\<lambda>x. fn x []) iterable"

definition test_single :: "rat list list" where
  "test_single = executor_map process_data DATA"

definition test_batch :: "exn + rat list list" where
  "test_batch =
     (case batched DATA BATCH_SIZE of
        Inl e \<Rightarrow> Inl e
      | Inr batches \<Rightarrow> Inr (executor_map process_data_in_batch batches))"

section \<open>Single dispatch\<close>

text \<open>The classes of the objects, and the method resolution order of each class:
  \<open>bool\<close> is a subclass of \<open>int\<close>, every other class derives from \<open>object\<close> alone.\<close>

datatype pytype =
    TObject | TNoneType | TBool | TInt | TStr | TList | TTuple | TDict | TFunction

fun type_of :: "pyval \<Rightarrow> pytype" where
  "type_of PyNone = TNoneType"
| "type_of (PyBool _) = TBool"
| "type_of (PyInt _) = TInt"
| "type_of (PyStr _) = TStr"
| "type_of (PyList _) = TList"
| "type_of (PyTuple _) = TTuple"
| "type_of (PyDict _) = TDict"
| "type_of (PyFunction _) = TFunction"

fun mro :: "pytype \<Rightarrow> pytype list" where
  "mro TObject = [TObject]"
| "mro TBool = [TBool, TInt, TObject]"
| "mro t = [t, TObject]"

definition isinstance :: "pyval \<Rightarrow> pytype \<Rightarrow> bool" where
  "isinstance v t = (t \<in> set (mro (type_of v)))"

subsection \<open>The operations the handlers use\<close>

text \<open>\<open>value + 10\<close>: integer addition, a boolean counting as 0 or 1; on any other pair of
  operands the handlers of this notebook could meet, Python raises \<open>TypeError\<close>.\<close>

fun py_add :: "pyval \<Rightarrow> pyval \<Rightarrow> exn + pyval" where
  "py_add (PyInt a) (PyInt b) = Inr (PyInt (a + b))"
| "py_add (PyBool a) (PyInt b) = Inr (PyInt (of_bool a + b))"
| "py_add _ _ = Inl (TypeError ''unsupported operand type(s) for +'')"

text \<open>
  \<open>str.upper\<close> replaces each code point of the string, in order, by its full upper-case
  mapping in the Unicode character database: one code point for most (\<open>a\<close> to \<open>A\<close>,
  U+00E9 to U+00C9), several for some (U+00DF to \<open>SS\<close>), itself where there is no
  mapping. The database is not part of the notebook; its table of upper-case mappings
  is a parameter.
\<close>

type_synonym case_table = "nat \<Rightarrow> nat list"

definition str_upper :: "case_table \<Rightarrow> nat list \<Rightarrow> nat list" where
  "str_upper uc s = concat (map uc s)"

fun py_upper :: "case_table \<Rightarrow> pyval \<Rightarrow> exn + pyval" where
  "py_upper uc (PyStr s) = Inr (PyStr (str_upper uc s))"
| "py_upper uc _ = Inl (AttributeError ''object has no attribute upper'')"

text \<open>A table with the rows of the ASCII range, where the letters \<open>a\<close> to \<open>z\<close> (97 to
  122) map to \<open>A\<close> to \<open>Z\<close> and nothing else is mapped.\<close>

definition ascii_upper :: case_table where
  "ascii_upper c = (if 97 \<le> c \<and> c \<le> 122 then [c - 32] else [c])"

subsection \<open>\<open>functools.singledispatch\<close>\<close>

text \<open>
  A generic function holds a registry from classes to implementations and a cache of the
  dispatches already made:
  \<^verbatim>\<open>
  def singledispatch(func):
      registry = {}
      dispatch_cache = weakref.WeakKeyDictionary()

      def dispatch(cls):
          try:
              impl = dispatch_cache[cls]
          except KeyError:
              try:
                  impl = registry[cls]
              except KeyError:
                  impl = _find_impl(cls, registry)
              dispatch_cache[cls] = impl
          return impl

      def register(cls, func=None):
          ...
          registry[cls] = func
          dispatch_cache.clear()
          return func

      def wrapper(*args, **kw):
          return dispatch(args[0].__class__)(*args, **kw)

      registry[object] = func
      ...
      return wrapper
  \<close>
  With no abstract base class registered, \<open>_find_impl\<close> returns the implementation of the
  first class of the argument's method resolution order that the registry holds.
\<close>

type_synonym handler = "pyval \<Rightarrow> exn + pyval"

record generic =
  registry :: "pytype \<rightharpoonup> handler"
  dispatch_cache :: "pytype \<rightharpoonup> handler option"

definition singledispatch :: "handler \<Rightarrow> generic" where
  "singledispatch func = \<lparr>registry = [TObject \<mapsto> func], dispatch_cache = Map.empty\<rparr>"

definition register :: "pytype \<Rightarrow> handler \<Rightarrow> generic \<Rightarrow> generic" where
  "register cls func g =
     g\<lparr>registry := (registry g)(cls \<mapsto> func), dispatch_cache := Map.empty\<rparr>"

fun first_registered :: "pytype list \<Rightarrow> (pytype \<rightharpoonup> handler) \<Rightarrow> handler option" where
  "first_registered [] reg = None"
| "first_registered (t # ts) reg =
     (case reg t of Some impl \<Rightarrow> Some impl | None \<Rightarrow> first_registered ts reg)"

definition find_impl :: "pytype \<Rightarrow> (pytype \<rightharpoonup> handler) \<Rightarrow> handler option" where
  "find_impl cls reg = first_registered (mro cls) reg"

definition dispatch :: "pytype \<Rightarrow> generic \<Rightarrow> handler option \<times> generic" where
  "dispatch cls g =
     (case dispatch_cache g cls of
        Some impl \<Rightarrow> (impl, g)
      | None \<Rightarrow>
          (let impl = (case registry g cls of
                         Some f \<Rightarrow> Some f
                       | None \<Rightarrow> find_impl cls (registry g))
           in (impl, g\<lparr>dispatch_cache := (dispatch_cache g)(cls \<mapsto> impl)\<rparr>)))"

definition wrapper :: "generic \<Rightarrow> pyval \<Rightarrow> (exn + pyval) \<times> generic" where
  "wrapper g v =
     (let (impl, g') = dispatch (type_of v) g
      in case impl of
           None \<Rightarrow> (Inl (TypeError ''NoneType object is not callable''), g')
         | Some f \<Rightarrow> (f v, g'))"

subsection \<open>The generic function \<open>process\<close>\<close>

text \<open>
  \<^verbatim>\<open>
  @singledispatch
  def process(value):
      raise NotImplementedError("Unsupported type")

  @process.register
  def _(value: int):
      return value + 10

  @process.register
  def _(value: str):
      return value.upper()
  \<close>
\<close>

definition process_object :: handler where
  "process_object value = Inl (NotImplementedError ''Unsupported type'')"

definition process_int :: handler where
  "process_int value = py_add value (PyInt 10)"

definition process_str :: "case_table \<Rightarrow> handler" where
  "process_str uc value = py_upper uc value"

definition process_generic :: "case_table \<Rightarrow> generic" where
  "process_generic uc =
     register TStr (process_str uc)
       (register TInt process_int (singledispatch process_object))"

text \<open>The state of the generic function after the calls \<open>process(v)\<close> for \<open>v\<close> in \<open>vs\<close>, and
  the result of \<open>process(v)\<close> made after them; \<open>process\<close> is the first call.\<close>

definition after_calls :: "generic \<Rightarrow> pyval list \<Rightarrow> generic" where
  "after_calls g vs = fold (\<lambda>v g'. snd (wrapper g' v)) vs g"

definition process_after :: "case_table \<Rightarrow> pyval list \<Rightarrow> pyval \<Rightarrow> exn + pyval" where
  "process_after uc vs v = fst (wrapper (after_calls (process_generic uc) vs) v)"

definition process :: "case_table \<Rightarrow> pyval \<Rightarrow> exn + pyval" where
  "process uc v = process_after uc [] v"

subsection \<open>The usage of \<open>process\<close>\<close>

text \<open>
  \<^verbatim>\<open>
  print(process(10))  # Output: 20
  print(process('hello'))  # Output: 'HELLO'
  try:
      process(['lama'])
  except NotImplementedError as err:
      print(f"NotImplementedError error caught: {err}")
  \<close>
  A run is recorded by the objects it printed, the exceptions its \<open>except\<close> clauses
  caught and the exception that ended it, if one did. \<open>str(err)\<close> of an exception made
  from one message is the message.
\<close>

record outcome =
  stdout :: "pyval list"
  caught :: "exn list"
  raised :: "exn option"

fun exn_str :: "exn \<Rightarrow> string" where
  "exn_str (ValueError m) = m"
| "exn_str (TypeError m) = m"
| "exn_str (AttributeError m) = m"
| "exn_str (KeyError k) = [CHR 0x27] @ k @ [CHR 0x27]"
| "exn_str (NotImplementedError m) = m"
| "exn_str (ImportError m) = m"
| "exn_str (ModuleNotFoundError m) = m"
| "exn_str (DatabaseError m) = m"
| "exn_str (PicklingError m) = m"

fun is_NotImplementedError :: "exn \<Rightarrow> bool" where
  "is_NotImplementedError (NotImplementedError _) = True"
| "is_NotImplementedError _ = False"

text \<open>The \<open>try\<close> statement of the usage, for any argument in place of \<open>['lama']\<close> and any
  state of the generic function.\<close>

definition try_process :: "generic \<Rightarrow> pyval \<Rightarrow> outcome" where
  "try_process g v =
     (case fst (wrapper g v) of
        Inr _ \<Rightarrow> \<lparr>stdout = [], caught = [], raised = None\<rparr>
      | Inl err \<Rightarrow>
          if is_NotImplementedError err
          then \<lparr>stdout =
                  [PyStr (codepoints (''NotImplementedError error caught: '' @ exn_str err))],
                caught = [err], raised = None\<rparr>
          else \<lparr>stdout = [], caught = [], raised = Some err\<rparr>)"

definition usage :: "case_table \<Rightarrow> outcome" where
  "usage uc =
     (let (r1, g1) = wrapper (process_generic uc) (PyInt 10)
      in case r1 of
           Inl e \<Rightarrow> \<lparr>stdout = [], caught = [], raised = Some e\<rparr>
         | Inr v1 \<Rightarrow>
             (let (r2, g2) = wrapper g1 (PyStr (codepoints ''hello''))
              in case r2 of
                   Inl e \<Rightarrow> \<lparr>stdout = [v1], caught = [], raised = Some e\<rparr>
                 | Inr v2 \<Rightarrow>
                     (let t = try_process g2 (PyList [PyStr (codepoints ''lama'')])
                      in t\<lparr>stdout := [v1, v2] @ stdout t\<rparr>)))"

subsection \<open>The import of \<open>batched\<close>\<close>

text \<open>
  \<^verbatim>\<open>
  try:
      # for python3.12
      from itertools import batched
  except ImportError:
      # for older versions.
      # you need to install package with `pip install more_itertools`
      from more_itertools import batched
  \<close>
  An installation is the table of its modules, each with the names it defines.
  \<open>from m import n\<close> raises \<open>ModuleNotFoundError\<close>, a subclass of \<open>ImportError\<close>, when
  there is no module \<open>m\<close>, and \<open>ImportError\<close> when \<open>m\<close> does not define \<open>n\<close>; both carry
  the module's name.
\<close>

type_synonym modules = "string \<rightharpoonup> string list"

definition import_from :: "modules \<Rightarrow> string \<Rightarrow> string \<Rightarrow> exn + string \<times> string" where
  "import_from ms m n =
     (case ms m of
        None \<Rightarrow> Inl (ModuleNotFoundError m)
      | Some names \<Rightarrow> if n \<in> set names then Inr (m, n) else Inl (ImportError m))"

fun is_ImportError :: "exn \<Rightarrow> bool" where
  "is_ImportError (ImportError _) = True"
| "is_ImportError (ModuleNotFoundError _) = True"
| "is_ImportError _ = False"

text \<open>The exceptions the \<open>except\<close> clause caught, and the function imported or the
  exception that left the statement.\<close>

definition import_batched :: "modules \<Rightarrow> exn list \<times> (exn + string \<times> string)" where
  "import_batched ms =
     (case import_from ms ''itertools'' ''batched'' of
        Inr f \<Rightarrow> ([], Inr f)
      | Inl err \<Rightarrow>
          if is_ImportError err
          then ([err], import_from ms ''more_itertools'' ''batched'')
          else ([], Inl err))"

text \<open>The notebook records a run on Python 3.11.8, whose \<open>itertools\<close> has no \<open>batched\<close>;
  Python 3.12 has it.\<close>

definition python311 :: modules where
  "python311 =
     [''itertools'' \<mapsto> [''chain'', ''islice'', ''pairwise''],
      ''more_itertools'' \<mapsto> [''batched'', ''chunked'']]"

definition python312 :: modules where
  "python312 = [''itertools'' \<mapsto> [''batched'', ''chain'', ''islice'', ''pairwise'']]"

text \<open>Every exception an \<open>except\<close> clause of the notebook catches in a run: the notebook has
  the two \<open>try\<close> statements above and no other.\<close>

definition caught_errors :: "case_table \<Rightarrow> modules \<Rightarrow> exn list" where
  "caught_errors uc ms = fst (import_batched ms) @ caught (usage uc)"

text \<open>What a dispatch on a class gives when the cache does not hold the class, and the
  invariant of the cache: it only remembers such dispatches.\<close>

definition resolve :: "(pytype \<rightharpoonup> handler) \<Rightarrow> pytype \<Rightarrow> handler option" where
  "resolve reg cls = (case reg cls of Some f \<Rightarrow> Some f | None \<Rightarrow> find_impl cls reg)"

definition cache_sound :: "case_table \<Rightarrow> generic \<Rightarrow> bool" where
  "cache_sound uc g \<longleftrightarrow>
     registry g = registry (process_generic uc) \<and>
     (\<forall>t impl. dispatch_cache g t = Some impl \<longrightarrow> resolve (registry g) t = impl)"


section \<open>Shelve\<close>

text \<open>
  \<^verbatim>\<open>
  with shelve.open('myTest.db') as db:
      db['example_response'] = response

  # Later access the data without needing to fetch it again
  with shelve.open('myTest.db') as db:
      stored_response = db['example_response']
  \<close>
  A shelf stores under each key the pickled form of the value: \<open>db[key] = value\<close> writes
  \<open>pickle.dumps(value)\<close>, which raises for a value pickle refuses, and \<open>db[key]\<close> returns
  \<open>pickle.loads\<close> of what it finds, or raises \<open>KeyError\<close>. The pickle protocol is the
  library's; it is a parameter here, and so is the type of the stored form. The disk
  maps a file name to the table of the database file of that name. \<open>shelve.open\<close> (flag
  \<open>'c'\<close>) creates the file when it is missing, and the shelf's table reaches the disk
  when the shelf is closed, which the \<open>with\<close> statement does on every exit.
\<close>

record ('v, 'b) pickle =
  dumps :: "'v \<Rightarrow> exn + 'b"
  loads :: "'b \<Rightarrow> exn + 'v"

type_synonym 'b dbm = "string \<rightharpoonup> 'b"

type_synonym 'b disk = "string \<rightharpoonup> 'b dbm"

record 'b shelf =
  filename :: string
  dict :: "'b dbm"
  closed :: bool

definition shelve_open :: "string \<Rightarrow> 'b disk \<Rightarrow> 'b shelf \<times> 'b disk" where
  "shelve_open name d =
     (let table = (case d name of None \<Rightarrow> Map.empty | Some t \<Rightarrow> t)
      in (\<lparr>filename = name, dict = table, closed = False\<rparr>, d(name \<mapsto> table)))"

definition shelf_setitem ::
    "('v, 'b) pickle \<Rightarrow> string \<Rightarrow> 'v \<Rightarrow> 'b shelf \<Rightarrow> (exn + unit) \<times> 'b shelf" where
  "shelf_setitem p key v db =
     (if closed db then (Inl (ValueError ''invalid operation on closed shelf''), db)
      else case dumps p v of
             Inl e \<Rightarrow> (Inl e, db)
           | Inr bytes \<Rightarrow> (Inr (), db\<lparr>dict := (dict db)(key \<mapsto> bytes)\<rparr>))"

definition shelf_getitem :: "('v, 'b) pickle \<Rightarrow> string \<Rightarrow> 'b shelf \<Rightarrow> exn + 'v" where
  "shelf_getitem p key db =
     (if closed db then Inl (ValueError ''invalid operation on closed shelf'')
      else case dict db key of
             None \<Rightarrow> Inl (KeyError key)
           | Some bytes \<Rightarrow> loads p bytes)"

definition shelf_close :: "'b shelf \<Rightarrow> 'b disk \<Rightarrow> 'b shelf \<times> 'b disk" where
  "shelf_close db d =
     (if closed db then (db, d)
      else (db\<lparr>closed := True\<rparr>, d(filename db \<mapsto> dict db)))"

text \<open>The cell, from the response fetched and the disk as it was, to the value of
  \<open>stored_response\<close> (or the exception raised) and the disk left behind.\<close>

definition shelve_cell :: "('v, 'b) pickle \<Rightarrow> 'v \<Rightarrow> 'b disk \<Rightarrow> (exn + 'v) \<times> 'b disk" where
  "shelve_cell p response d0 =
     (let (db, d1) = shelve_open ''myTest.db'' d0;
          (r, db') = shelf_setitem p ''example_response'' response db;
          (_, d2) = shelf_close db' d1
      in case r of
           Inl e \<Rightarrow> (Inl e, d2)
         | Inr _ \<Rightarrow>
             (let (db2, d3) = shelve_open ''myTest.db'' d2;
                  stored_response = shelf_getitem p ''example_response'' db2;
                  (_, d4) = shelf_close db2 d3
              in (stored_response, d4)))"

text \<open>
  Pickle on the objects of this model, with the stored form left abstract (the object
  stands for its own bytes). Pickle restores \<open>None\<close>, booleans, integers, strings and the
  lists, tuples and dictionaries of objects it restores; it pickles a function by the
  name under which its module defines it, so it refuses a function made by a lambda,
  and any container that holds one.
\<close>

fun picklable :: "pyval \<Rightarrow> bool" where
  "picklable (PyFunction name) = (name \<noteq> ''<lambda>'')"
| "picklable (PyList xs) = list_all picklable xs"
| "picklable (PyTuple xs) = list_all picklable xs"
| "picklable (PyDict kvs) = list_all (\<lambda>(k, v). picklable k \<and> picklable v) kvs"
| "picklable _ = True"

definition pickle_values :: "(pyval, pyval) pickle" where
  "pickle_values =
     \<lparr>dumps = (\<lambda>v. if picklable v then Inr v
                   else Inl (PicklingError ''Can't pickle <function <lambda>>'')),
      loads = (\<lambda>bytes. Inr bytes)\<rparr>"

section \<open>Partial\<close>

text \<open>
  \<^verbatim>\<open>
  session = Session()
  graphql_url = 'https://countries.trevorblades.com/'
  # creates function `post` that is calling session.post with url=graphql_url everytime
  post = partial(session.post, url=graphql_url)
  ...
  resp = post(json={"query": body})
  \<close>
  \<open>partial(func, **keywords)\<close> is a callable that calls \<open>func\<close> with \<open>keywords\<close> updated
  by the keywords of the call. \<open>Session.post(url, data=None, json=None, **kwargs)\<close>
  sends one \<open>POST\<close> request to \<open>url\<close>. The network is a parameter: it answers a request or
  raises. A session is recorded by the requests it has sent.
\<close>

type_synonym kwargs = "string \<rightharpoonup> pyval"

record request =
  http_method :: string
  url :: pyval
  args :: kwargs

record session =
  sent :: "request list"

definition Session :: session where
  "Session = \<lparr>sent = []\<rparr>"

definition session_request ::
    "(request \<Rightarrow> exn + 'r) \<Rightarrow> string \<Rightarrow> pyval \<Rightarrow> kwargs \<Rightarrow> session \<Rightarrow> (exn + 'r) \<times> session" where
  "session_request network m u kw s =
     (let req = \<lparr>http_method = m, url = u, args = kw\<rparr>
      in (network req, s\<lparr>sent := sent s @ [req]\<rparr>))"

definition session_post ::
    "(request \<Rightarrow> exn + 'r) \<Rightarrow> kwargs \<Rightarrow> session \<Rightarrow> (exn + 'r) \<times> session" where
  "session_post network kw s =
     (case kw ''url'' of
        None \<Rightarrow> (Inl (TypeError ''post() missing 1 required positional argument: url''), s)
      | Some u \<Rightarrow> session_request network ''POST'' u (kw(''url'' := None)) s)"

definition partial :: "(kwargs \<Rightarrow> 'a) \<Rightarrow> kwargs \<Rightarrow> kwargs \<Rightarrow> 'a" where
  "partial func keywords kw = func (keywords ++ kw)"

definition graphql_url :: pyval where
  "graphql_url = PyStr (codepoints ''https://countries.trevorblades.com/'')"

definition post ::
    "(request \<Rightarrow> exn + 'r) \<Rightarrow> kwargs \<Rightarrow> session \<Rightarrow> (exn + 'r) \<times> session" where
  "post network = partial (session_post network) [''url'' \<mapsto> graphql_url]"

section \<open>Closing\<close>

text \<open>
  \<^verbatim>\<open>
  with sqlite3.connect('myOtherTest') as connection:
      with closing(connection.cursor()) as cursor:
          cursor.execute("SELECT 'HELLO WORLD'")
          print(cursor.fetchall())
  \<close>
  The database is a parameter: it answers a statement with rows or raises. A cursor is
  recorded by the rows it holds and by the number of calls of its \<open>close\<close>; a closed
  cursor refuses every operation. \<open>with closing(thing) as x: body\<close> runs the body on
  \<open>thing\<close> and then calls \<open>thing.close()\<close>, whether the body returned or raised, and lets
  the body's exception through.
\<close>

record cursor =
  rows :: "pyval list"
  close_calls :: nat

definition connection_cursor :: cursor where
  "connection_cursor = \<lparr>rows = [], close_calls = 0\<rparr>"

definition cursor_execute ::
    "(string \<Rightarrow> exn + pyval list) \<Rightarrow> string \<Rightarrow> cursor \<Rightarrow> (exn + unit) \<times> cursor" where
  "cursor_execute database sql c =
     (if 0 < close_calls c then (Inl (DatabaseError ''Cannot operate on a closed cursor.''), c)
      else case database sql of
             Inl e \<Rightarrow> (Inl e, c)
           | Inr rs \<Rightarrow> (Inr (), c\<lparr>rows := rs\<rparr>))"

definition cursor_fetchall :: "cursor \<Rightarrow> (exn + pyval list) \<times> cursor" where
  "cursor_fetchall c =
     (if 0 < close_calls c then (Inl (DatabaseError ''Cannot operate on a closed cursor.''), c)
      else (Inr (rows c), c\<lparr>rows := []\<rparr>))"

definition cursor_close :: "cursor \<Rightarrow> cursor" where
  "cursor_close c = c\<lparr>rows := [], close_calls := Suc (close_calls c)\<rparr>"

definition closing :: "('s \<Rightarrow> 's) \<Rightarrow> 's \<Rightarrow> ('s \<Rightarrow> (exn + 'a) \<times> 's) \<Rightarrow> (exn + 'a) \<times> 's" where
  "closing close thing body = (let (r, thing') = body thing in (r, close thing'))"

text \<open>The body of the inner block, returning what it printed.\<close>

definition query :: "(string \<Rightarrow> exn + pyval list) \<Rightarrow> cursor \<Rightarrow> (exn + pyval list) \<times> cursor" where
  "query database c =
     (let (r, c1) = cursor_execute database (''SELECT 'HELLO WORLD'' @ [CHR 0x27]) c
      in case r of
           Inl e \<Rightarrow> (Inl e, c1)
         | Inr _ \<Rightarrow>
             (let (f, c2) = cursor_fetchall c1
              in case f of
                   Inl e \<Rightarrow> (Inl e, c2)
                 | Inr rs \<Rightarrow> (Inr [PyList rs], c2)))"

definition closing_cell :: "(string \<Rightarrow> exn + pyval list) \<Rightarrow> (exn + pyval list) \<times> cursor" where
  "closing_cell database = closing cursor_close connection_cursor (query database)"

section \<open>Verification\<close>

subsection \<open>Properties of the chunks\<close>

lemma batched_loop_Nil: "batched_loop n [] = []"
  by (simp add: batched_loop.simps)

lemma batched_loop_step:
  assumes "0 < n" and "xs \<noteq> []"
  shows "batched_loop n xs = take n xs # batched_loop n (drop n xs)"
  using assms by (subst batched_loop.simps) (simp add: Let_def)

lemma concat_batched_loop: "0 < n \<Longrightarrow> concat (batched_loop n xs) = xs"
proof (induction n xs rule: batched_loop.induct)
  case (1 n it)
  show ?case
  proof (cases "it = []")
    case True
    then show ?thesis by (simp add: batched_loop_Nil)
  next
    case False
    with "1.prems" have ne: "take n it \<noteq> []" by simp
    from "1.IH" [OF refl ne "1.prems"]
    have "concat (batched_loop n (drop n it)) = drop n it" .
    with False "1.prems" show ?thesis
      by (simp add: batched_loop_step)
  qed
qed

lemma lengths_batched_loop:
  "0 < n \<Longrightarrow> length xs = k * n \<Longrightarrow> map length (batched_loop n xs) = replicate k n"
proof (induction k arbitrary: xs)
  case 0
  then show ?case by (simp add: batched_loop_Nil)
next
  case (Suc k)
  from Suc.prems have ne: "xs \<noteq> []" by auto
  from Suc.prems have "length (drop n xs) = k * n" by simp
  with Suc.IH Suc.prems(1)
  have "map length (batched_loop n (drop n xs)) = replicate k n" by blast
  with Suc.prems ne show ?case
    by (simp add: batched_loop_step)
qed

text \<open>
  C1. Any list of 20,000 elements, and so the benchmark's \<open>DATA\<close>, is split by
  \<open>batched(_, 400)\<close> into exactly 50 chunks, each of length 400, whose concatenation in
  order is the list itself: no element is left out, repeated or moved.
\<close>

theorem batched_20000_by_400:
  assumes "length xs = 20000"
  shows "\<exists>bs. batched xs BATCH_SIZE = Inr bs \<and> length bs = 50
           \<and> map length bs = replicate 50 400 \<and> concat bs = xs"
proof -
  let ?bs = "batched_loop 400 xs"
  have b: "batched xs BATCH_SIZE = Inr ?bs"
    by (simp add: batched_def BATCH_SIZE_def)
  from assms have "length xs = 50 * 400" by simp
  then have l: "map length ?bs = replicate 50 400"
    using lengths_batched_loop [of 400 xs 50] by simp
  then have "length (map length ?bs) = 50" by simp
  then have n: "length ?bs = 50" by simp
  have c: "concat ?bs = xs" by (simp add: concat_batched_loop)
  from b n l c show ?thesis by blast
qed

theorem batched_20000_by_400_witness:
  "length DATA = 20000 \<and>
   (\<exists>bs. batched DATA BATCH_SIZE = Inr bs \<and> length bs = 50
      \<and> map length bs = replicate 50 400 \<and> concat bs = DATA)"
proof -
  have h: "length DATA = 20000" by (simp add: DATA_def)
  from h batched_20000_by_400 [OF h] show ?thesis by blast
qed

subsection \<open>The delays of the benchmark's tasks\<close>

lemma batched_DATA: "batched DATA BATCH_SIZE = Inr (replicate 50 (replicate 400 1))"
proof -
  have "length DATA = 50 * 400" by (simp add: DATA_def)
  then have l: "map length (batched_loop 400 DATA) = replicate 50 400"
    using lengths_batched_loop [of 400 DATA 50] by simp
  have "\<forall>b \<in> set (batched_loop 400 DATA). set b \<subseteq> {1}"
  proof
    fix b assume "b \<in> set (batched_loop 400 DATA)"
    then have "set b \<subseteq> set (concat (batched_loop 400 DATA))" by auto
    then show "set b \<subseteq> {1}" by (simp add: concat_batched_loop DATA_def)
  qed
  then have e: "\<forall>b \<in> set (batched_loop 400 DATA). b = replicate (length b) 1"
    by (metis replicate_length_same subset_singletonD empty_set length_0_conv
        replicate_0 singletonD subsetD)
  have "batched_loop 400 DATA = map (\<lambda>n. replicate n 1) (map length (batched_loop 400 DATA))"
    using e by (simp add: map_idI [symmetric] comp_def cong: map_cong)
  then have "batched_loop 400 DATA = replicate 50 (replicate 400 1)"
    by (simp add: l)
  then show ?thesis by (simp add: batched_def BATCH_SIZE_def)
qed

lemma process_data_in_batch_eq:
  "process_data_in_batch items slept = slept @ replicate (length items) SLEEP_TIME"
proof -
  have "fold (\<lambda>item s. s @ [SLEEP_TIME]) items slept =
          slept @ replicate (length items) SLEEP_TIME"
    by (induction items arbitrary: slept) (simp_all add: replicate_app_Cons_same)
  moreover have "simulate_io_operation = (\<lambda>(item::'a) s. s @ [SLEEP_TIME])"
    by (simp add: fun_eq_iff simulate_io_operation_def sleep_def)
  ultimately show ?thesis
    by (simp add: process_data_in_batch_def)
qed

lemma test_batch_eq: "test_batch = Inr (replicate 50 (replicate 400 SLEEP_TIME))"
  by (simp add: test_batch_def batched_DATA executor_map_def process_data_in_batch_eq)

text \<open>
  C3, as the program has it. A task of the one-task-per-element strategy asks for one
  delay of a millisecond. A task of the one-task-per-chunk strategy asks for one delay of
  a millisecond for each element of its chunk: 400 of them, 0.4 seconds, in each of the
  50 tasks of \<open>test_batch\<close>.
\<close>

theorem task_delays:
  "process_data item [] = [SLEEP_TIME] \<and>
   process_data_in_batch items [] = replicate (length items) SLEEP_TIME \<and>
   test_single = replicate 20000 [SLEEP_TIME] \<and>
   test_batch = Inr (replicate 50 (replicate 400 SLEEP_TIME)) \<and>
   sum_list (replicate 400 SLEEP_TIME) = 2 / 5 \<and>
   SLEEP_TIME = 1 / 1000"
proof -
  have 1: "process_data item [] = [SLEEP_TIME]" for item :: 'c
    by (simp add: process_data_def simulate_io_operation_def sleep_def)
  have 2: "process_data_in_batch items [] = replicate (length items) SLEEP_TIME"
    by (simp add: process_data_in_batch_eq)
  have 3: "test_single = replicate 20000 [SLEEP_TIME]"
    by (simp add: test_single_def executor_map_def DATA_def 1)
  have 4: "sum_list (replicate 400 SLEEP_TIME) = 2 / 5"
    by (simp add: sum_list_replicate SLEEP_TIME_def)
  from 1 2 3 4 test_batch_eq show ?thesis by (simp add: SLEEP_TIME_def)
qed

text \<open>
  C3 as stated fails in the one-task-per-chunk strategy: the task of a chunk of 400
  elements sleeps 400 times, 0.4 seconds in all, not one millisecond.
\<close>

theorem batch_task_delay_counterexample:
  "test_batch = Inr (replicate 50 (process_data_in_batch (replicate 400 (1::int)) [])) \<and>
   process_data_in_batch (replicate 400 (1::int)) [] \<noteq> [SLEEP_TIME] \<and>
   sum_list (process_data_in_batch (replicate 400 (1::int)) []) = 2 / 5 \<and>
   sum_list (process_data_in_batch (replicate 400 (1::int)) []) \<noteq> SLEEP_TIME"
proof -
  have p: "process_data_in_batch (replicate 400 (1::int)) [] = replicate 400 SLEEP_TIME"
    by (simp add: process_data_in_batch_eq)
  have n: "replicate 400 SLEEP_TIME \<noteq> [SLEEP_TIME]"
  proof
    assume "replicate 400 SLEEP_TIME = [SLEEP_TIME]"
    then have "length (replicate 400 SLEEP_TIME) = length [SLEEP_TIME]" by simp
    then show False by simp
  qed
  have s: "sum_list (replicate 400 SLEEP_TIME) = 2 / 5"
    by (simp add: sum_list_replicate SLEEP_TIME_def)
  have d: "(2::rat) / 5 \<noteq> SLEEP_TIME" by (simp add: SLEEP_TIME_def)
  from p n s d test_batch_eq show ?thesis by simp
qed


subsection \<open>Dispatch\<close>

lemma registry_process_generic:
  "registry (process_generic uc) =
     [TObject \<mapsto> process_object, TInt \<mapsto> process_int, TStr \<mapsto> process_str uc]"
  by (simp add: process_generic_def register_def singledispatch_def)

lemma cache_process_generic: "dispatch_cache (process_generic uc) = Map.empty"
  by (simp add: process_generic_def register_def singledispatch_def)

lemma resolve_process_generic:
  "resolve (registry (process_generic uc)) t =
     Some (if t = TInt \<or> t = TBool then process_int
           else if t = TStr then process_str uc else process_object)"
  by (cases t) (simp_all add: resolve_def find_impl_def registry_process_generic)

lemma cache_sound_init: "cache_sound uc (process_generic uc)"
  by (simp add: cache_sound_def cache_process_generic)

lemma registry_dispatch: "registry (snd (dispatch cls g)) = registry g"
  by (simp add: dispatch_def Let_def split: option.splits)

lemma registry_wrapper: "registry (snd (wrapper g v)) = registry g"
proof -
  obtain impl g' where d: "dispatch (type_of v) g = (impl, g')"
    by (cases "dispatch (type_of v) g")
  with registry_dispatch [of "type_of v" g] have "registry g' = registry g" by simp
  with d show ?thesis by (simp add: wrapper_def split: option.splits)
qed

lemma dispatch_sound:
  assumes "cache_sound uc g"
  shows "fst (dispatch cls g) = resolve (registry (process_generic uc)) cls"
    and "cache_sound uc (snd (dispatch cls g))"
proof -
  from assms have r: "registry g = registry (process_generic uc)"
    and c: "\<And>t impl. dispatch_cache g t = Some impl \<Longrightarrow> resolve (registry g) t = impl"
    by (auto simp: cache_sound_def)
  show "fst (dispatch cls g) = resolve (registry (process_generic uc)) cls"
  proof (cases "dispatch_cache g cls")
    case None
    then show ?thesis
      by (simp add: dispatch_def resolve_def r Let_def split: option.splits)
  next
    case (Some f)
    with c [of cls f] r show ?thesis by (simp add: dispatch_def)
  qed
  show "cache_sound uc (snd (dispatch cls g))"
  proof (cases "dispatch_cache g cls")
    case None
    then have "snd (dispatch cls g) =
        g\<lparr>dispatch_cache := (dispatch_cache g)(cls \<mapsto> resolve (registry g) cls)\<rparr>"
      by (simp add: dispatch_def resolve_def Let_def)
    with c r show ?thesis
      by (simp add: cache_sound_def)
  next
    case (Some f)
    with assms show ?thesis by (simp add: dispatch_def)
  qed
qed

lemma wrapper_sound:
  assumes "cache_sound uc g"
  shows "fst (wrapper g v) =
           (case resolve (registry (process_generic uc)) (type_of v) of
              None \<Rightarrow> Inl (TypeError ''NoneType object is not callable'')
            | Some f \<Rightarrow> f v)"
    and "cache_sound uc (snd (wrapper g v))"
proof -
  obtain impl g' where d: "dispatch (type_of v) g = (impl, g')"
    by (cases "dispatch (type_of v) g")
  with dispatch_sound [OF assms, of "type_of v"]
  have i: "impl = resolve (registry (process_generic uc)) (type_of v)"
    and s: "cache_sound uc g'"
    by simp_all
  from d i show "fst (wrapper g v) =
           (case resolve (registry (process_generic uc)) (type_of v) of
              None \<Rightarrow> Inl (TypeError ''NoneType object is not callable'')
            | Some f \<Rightarrow> f v)"
    by (simp add: wrapper_def split: option.splits)
  from d s show "cache_sound uc (snd (wrapper g v))"
    by (simp add: wrapper_def split: option.splits)
qed

lemma cache_sound_fold:
  "cache_sound uc g \<Longrightarrow> cache_sound uc (fold (\<lambda>v g'. snd (wrapper g' v)) vs g)"
  by (induction vs arbitrary: g) (simp_all add: wrapper_sound(2))

lemma cache_sound_after_calls: "cache_sound uc (after_calls (process_generic uc) vs)"
  unfolding after_calls_def by (rule cache_sound_fold [OF cache_sound_init])

lemma process_after_eq:
  "process_after uc vs v =
     (if type_of v = TInt \<or> type_of v = TBool then process_int v
      else if type_of v = TStr then process_str uc v else process_object v)"
  unfolding process_after_def
  by (simp add: wrapper_sound(1) [OF cache_sound_after_calls] resolve_process_generic)

lemma registry_fold:
  "registry (fold (\<lambda>v g'. snd (wrapper g' v)) vs g) = registry g"
  by (induction vs arbitrary: g) (simp_all add: registry_wrapper)

lemma concat_map_singletons:
  "(\<And>c. c \<in> set s \<Longrightarrow> uc c = [f c]) \<Longrightarrow> concat (map uc s) = map f s"
  by (induction s) simp_all

text \<open>
  C2. Whatever calls of \<open>process\<close> came before, \<open>process(n)\<close> on an integer \<open>n\<close> returns
  \<open>n + 10\<close>; \<open>process(s)\<close> on a string \<open>s\<close> returns \<open>s\<close> in upper case, that is the
  upper-case mappings of its code points, in order, whatever the table of the Unicode
  database holds; and \<open>process\<close> on a list raises \<open>NotImplementedError("Unsupported type")\<close>.
  For a table with Unicode's rows of the ASCII range and a string of ASCII characters,
  the upper case is the string with each of \<open>a\<close> to \<open>z\<close> replaced by the letter 32 codes
  below it and every other character kept.
\<close>

theorem process_int_str_list:
  "process_after uc vs (PyInt n) = Inr (PyInt (n + 10)) \<and>
   process_after uc vs (PyStr s) = Inr (PyStr (concat (map uc s))) \<and>
   process_after uc vs (PyList xs) = Inl (NotImplementedError ''Unsupported type'') \<and>
   ((\<forall>c<128. uc c = (if 97 \<le> c \<and> c \<le> 122 then [c - 32] else [c])) \<and>
    (\<forall>c\<in>set s. c < 128) \<longrightarrow>
      process_after uc vs (PyStr s) =
        Inr (PyStr (map (\<lambda>c. if 97 \<le> c \<and> c \<le> 122 then c - 32 else c) s)))"
proof -
  have i: "process_after uc vs (PyInt n) = Inr (PyInt (n + 10))"
    by (simp add: process_after_eq process_int_def)
  have u: "process_after uc vs (PyStr s) = Inr (PyStr (concat (map uc s)))"
    by (simp add: process_after_eq process_str_def str_upper_def)
  have l: "process_after uc vs (PyList xs) = Inl (NotImplementedError ''Unsupported type'')"
    by (simp add: process_after_eq process_object_def)
  have a: "process_after uc vs (PyStr s) =
        Inr (PyStr (map (\<lambda>c. if 97 \<le> c \<and> c \<le> 122 then c - 32 else c) s))"
    if t: "\<forall>c<128. uc c = (if 97 \<le> c \<and> c \<le> 122 then [c - 32] else [c])"
      and r: "\<forall>c\<in>set s. c < 128"
  proof -
    have "uc c = [if 97 \<le> c \<and> c \<le> 122 then c - 32 else c]" if "c \<in> set s" for c
      using t r that by simp
    then have "concat (map uc s) = map (\<lambda>c. if 97 \<le> c \<and> c \<le> 122 then c - 32 else c) s"
      by (rule concat_map_singletons)
    with u show ?thesis by simp
  qed
  from i u l a show ?thesis by blast
qed

theorem process_int_str_list_witness:
  "list_all (\<lambda>c. c < 128) (codepoints ''hello'') \<and>
   process_after ascii_upper [] (PyInt 10) = Inr (PyInt 20) \<and>
   process_after ascii_upper [] (PyStr (codepoints ''hello'')) =
     Inr (PyStr (codepoints ''HELLO'')) \<and>
   process_after ascii_upper [] (PyList [PyStr (codepoints ''lama'')]) =
     Inl (NotImplementedError ''Unsupported type'')"
proof -
  have t: "\<forall>c<128. ascii_upper c = (if 97 \<le> c \<and> c \<le> 122 then [c - 32] else [c])"
    by (simp add: ascii_upper_def)
  have r: "\<forall>c\<in>set (codepoints ''hello''). c < 128"
    by (simp add: codepoints_def)
  have m: "map (\<lambda>c. if 97 \<le> c \<and> c \<le> 122 then c - 32 else c) (codepoints ''hello'') =
      codepoints ''HELLO''"
    by (simp add: codepoints_def)
  have a: "list_all (\<lambda>c. c < 128) (codepoints ''hello'')"
    by (simp add: codepoints_def)
  note th = process_int_str_list [of ascii_upper "[]" 10 "codepoints ''hello''"
      "[PyStr (codepoints ''lama'')]"]
  from th have 1: "process_after ascii_upper [] (PyInt 10) = Inr (PyInt 20)"
    by simp
  from th t r have "process_after ascii_upper [] (PyStr (codepoints ''hello'')) =
      Inr (PyStr (map (\<lambda>c. if 97 \<le> c \<and> c \<le> 122 then c - 32 else c)
        (codepoints ''hello'')))"
    by blast
  with m have 2: "process_after ascii_upper [] (PyStr (codepoints ''hello'')) =
      Inr (PyStr (codepoints ''HELLO''))"
    by simp
  from th have 3: "process_after ascii_upper [] (PyList [PyStr (codepoints ''lama'')]) =
      Inl (NotImplementedError ''Unsupported type'')"
    by blast
  from a 1 2 3 show ?thesis by blast
qed

text \<open>
  C10. A boolean does not reach the fallback: \<open>bool\<close> has \<open>int\<close> in its method resolution
  order, so \<open>process(b)\<close> runs the integer handler and returns the integer \<open>b + 10\<close>:
  11 for \<open>True\<close>, 10 for \<open>False\<close>.
\<close>

theorem process_bool:
  "process_after uc vs (PyBool b) = Inr (PyInt (of_bool b + 10)) \<and>
   process uc (PyBool True) = Inr (PyInt 11) \<and>
   process uc (PyBool False) = Inr (PyInt 10)"
  by (simp add: process_def process_after_eq process_int_def)

text \<open>
  C9. The registry of \<open>process\<close> is built by the three definitions of the cell: it holds
  the handler of \<open>int\<close>, the handler of \<open>str\<close> and the fallback under \<open>object\<close>, and
  nothing else. The only operation the program performs on \<open>process\<close> afterwards is the
  call, and no sequence of calls changes the registry (a call writes to the dispatch
  cache alone).
\<close>

theorem registry_fixed:
  "registry (process_generic uc) =
     [TObject \<mapsto> process_object, TInt \<mapsto> process_int, TStr \<mapsto> process_str uc] \<and>
   dom (registry (process_generic uc)) = {TObject, TInt, TStr} \<and>
   registry (after_calls (process_generic uc) vs) = registry (process_generic uc) \<and>
   registry (snd (wrapper (after_calls (process_generic uc) vs) v)) =
     registry (process_generic uc)"
proof -
  have d: "dom (registry (process_generic uc)) = {TObject, TInt, TStr}"
    by (auto simp: registry_process_generic split: if_splits)
  have a: "registry (after_calls (process_generic uc) vs) = registry (process_generic uc)"
    by (simp add: after_calls_def registry_fold)
  from d a registry_process_generic [of uc]
    registry_wrapper [of "after_calls (process_generic uc) vs" v]
  show ?thesis by simp
qed

subsection \<open>Error handling\<close>

lemma usage_eq:
  "usage uc =
     \<lparr>stdout = [PyInt 20, PyStr (concat (map uc (codepoints ''hello''))),
                PyStr (codepoints ''NotImplementedError error caught: Unsupported type'')],
      caught = [NotImplementedError ''Unsupported type''], raised = None\<rparr>"
proof -
  have 1: "fst (wrapper (process_generic uc) (PyInt 10)) = Inr (PyInt 20)"
    using wrapper_sound(1) [OF cache_sound_init, of uc "PyInt 10"]
    by (simp add: resolve_process_generic process_int_def)
  let ?g1 = "snd (wrapper (process_generic uc) (PyInt 10))"
  have s1: "cache_sound uc ?g1" by (rule wrapper_sound(2) [OF cache_sound_init])
  have 2: "fst (wrapper ?g1 (PyStr (codepoints ''hello''))) =
             Inr (PyStr (concat (map uc (codepoints ''hello''))))"
    using wrapper_sound(1) [OF s1, of "PyStr (codepoints ''hello'')"]
    by (simp add: resolve_process_generic process_str_def str_upper_def)
  let ?g2 = "snd (wrapper ?g1 (PyStr (codepoints ''hello'')))"
  have s2: "cache_sound uc ?g2" by (rule wrapper_sound(2) [OF s1])
  have 3: "fst (wrapper ?g2 (PyList [PyStr (codepoints ''lama'')])) =
             Inl (NotImplementedError ''Unsupported type'')"
    using wrapper_sound(1) [OF s2, of "PyList [PyStr (codepoints ''lama'')]"]
    by (simp add: resolve_process_generic process_object_def)
  from 1 2 3 show ?thesis
    by (simp add: usage_def try_process_def split_beta Let_def)
qed

lemma caught_import: "set (fst (import_batched ms)) \<subseteq>
    {ImportError ''itertools'', ModuleNotFoundError ''itertools''}"
  by (auto simp: import_batched_def import_from_def split: option.splits if_splits)

lemma import_batched_result:
  "snd (import_batched ms) =
     (case import_from ms ''itertools'' ''batched'' of
        Inr f \<Rightarrow> Inr f
      | Inl err \<Rightarrow> import_from ms ''more_itertools'' ''batched'')"
  by (simp add: import_batched_def import_from_def split: option.splits sum.splits)

text \<open>
  C5, as the program has it. Whatever calls came before, \<open>process\<close> on an argument that
  is an instance of neither \<open>int\<close> nor \<open>str\<close> raises
  \<open>NotImplementedError("Unsupported type")\<close>; the \<open>try\<close> statement of the usage catches it
  and prints \<open>NotImplementedError error caught: Unsupported type\<close>. The program has one
  more handler, around the import of \<open>batched\<close>. On an installation whose \<open>itertools\<close>
  has no \<open>batched\<close> and whose \<open>more_itertools\<close> has one, it catches the \<open>ImportError\<close> of
  the first import and imports \<open>batched\<close> from \<open>more_itertools\<close>; on Python 3.12 it catches
  nothing and \<open>batched\<close> is that of \<open>itertools\<close>. On every installation the function
  imported is that of \<open>itertools\<close> when the first import succeeds and otherwise whatever
  the import from \<open>more_itertools\<close> gives, and the exceptions the program catches are
  among the unsupported-type error and the import errors of \<open>itertools\<close>.
\<close>

theorem unsupported_type_raised_and_caught:
  assumes "\<not> isinstance v TInt" and "\<not> isinstance v TStr"
    and "ms ''itertools'' = Some names" and "''batched'' \<notin> set names"
    and "ms ''more_itertools'' = Some others" and "''batched'' \<in> set others"
  shows "process_after uc vs v = Inl (NotImplementedError ''Unsupported type'') \<and>
         try_process (after_calls (process_generic uc) vs) v =
           \<lparr>stdout =
              [PyStr (codepoints ''NotImplementedError error caught: Unsupported type'')],
            caught = [NotImplementedError ''Unsupported type''], raised = None\<rparr> \<and>
         caught (usage uc) = [NotImplementedError ''Unsupported type''] \<and>
         import_batched ms =
           ([ImportError ''itertools''], Inr (''more_itertools'', ''batched'')) \<and>
         import_batched python312 = ([], Inr (''itertools'', ''batched'')) \<and>
         snd (import_batched ms') =
           (case import_from ms' ''itertools'' ''batched'' of
              Inr f \<Rightarrow> Inr f
            | Inl err \<Rightarrow> import_from ms' ''more_itertools'' ''batched'') \<and>
         set (caught_errors uc ms') \<subseteq>
           {NotImplementedError ''Unsupported type'',
            ImportError ''itertools'', ModuleNotFoundError ''itertools''}"
proof -
  from assms(1,2) have t: "type_of v \<noteq> TInt" "type_of v \<noteq> TBool" "type_of v \<noteq> TStr"
    by (auto simp: isinstance_def)
  then have p: "process_after uc vs v = Inl (NotImplementedError ''Unsupported type'')"
    by (simp add: process_after_eq process_object_def)
  then have "fst (wrapper (after_calls (process_generic uc) vs) v) =
      Inl (NotImplementedError ''Unsupported type'')"
    by (simp add: process_after_def)
  then have c: "try_process (after_calls (process_generic uc) vs) v =
           \<lparr>stdout =
              [PyStr (codepoints ''NotImplementedError error caught: Unsupported type'')],
            caught = [NotImplementedError ''Unsupported type''], raised = None\<rparr>"
    by (simp add: try_process_def)
  have u: "caught (usage uc) = [NotImplementedError ''Unsupported type'']"
    by (simp add: usage_eq)
  from assms(3-6) have i: "import_batched ms =
           ([ImportError ''itertools''], Inr (''more_itertools'', ''batched''))"
    by (simp add: import_batched_def import_from_def)
  have j: "import_batched python312 = ([], Inr (''itertools'', ''batched''))"
    by (simp add: import_batched_def import_from_def python312_def)
  have s: "set (caught_errors uc ms') \<subseteq>
           {NotImplementedError ''Unsupported type'',
            ImportError ''itertools'', ModuleNotFoundError ''itertools''}"
    using caught_import [of ms'] by (auto simp: caught_errors_def u)
  from p c u i j import_batched_result [of ms'] s show ?thesis by blast
qed

theorem unsupported_type_raised_and_caught_witness:
  "\<not> isinstance (PyList [PyStr (codepoints ''lama'')]) TInt \<and>
   \<not> isinstance (PyList [PyStr (codepoints ''lama'')]) TStr \<and>
   python311 ''itertools'' = Some [''chain'', ''islice'', ''pairwise''] \<and>
   ''batched'' \<notin> set [''chain'', ''islice'', ''pairwise''] \<and>
   python311 ''more_itertools'' = Some [''batched'', ''chunked''] \<and>
   ''batched'' \<in> set [''batched'', ''chunked''] \<and>
   process_after ascii_upper [PyInt 10, PyStr (codepoints ''hello'')]
       (PyList [PyStr (codepoints ''lama'')]) =
     Inl (NotImplementedError ''Unsupported type'') \<and>
   try_process (after_calls (process_generic ascii_upper)
         [PyInt 10, PyStr (codepoints ''hello'')])
       (PyList [PyStr (codepoints ''lama'')]) =
     \<lparr>stdout = [PyStr (codepoints ''NotImplementedError error caught: Unsupported type'')],
      caught = [NotImplementedError ''Unsupported type''], raised = None\<rparr> \<and>
   caught (usage ascii_upper) = [NotImplementedError ''Unsupported type''] \<and>
   import_batched python311 =
     ([ImportError ''itertools''], Inr (''more_itertools'', ''batched'')) \<and>
   import_batched python312 = ([], Inr (''itertools'', ''batched'')) \<and>
   snd (import_batched Map.empty) = Inl (ModuleNotFoundError ''more_itertools'') \<and>
   set (caught_errors ascii_upper python311) \<subseteq>
     {NotImplementedError ''Unsupported type'',
      ImportError ''itertools'', ModuleNotFoundError ''itertools''}"
proof -
  have a: "\<not> isinstance (PyList [PyStr (codepoints ''lama'')]) TInt"
    and b: "\<not> isinstance (PyList [PyStr (codepoints ''lama'')]) TStr"
    by (simp_all add: isinstance_def)
  have c: "python311 ''itertools'' = Some [''chain'', ''islice'', ''pairwise'']"
    and e: "python311 ''more_itertools'' = Some [''batched'', ''chunked'']"
    by (simp_all add: python311_def)
  have d: "''batched'' \<notin> set [''chain'', ''islice'', ''pairwise'']"
    and f: "''batched'' \<in> set [''batched'', ''chunked'']"
    by simp_all
  have g: "snd (import_batched Map.empty) = Inl (ModuleNotFoundError ''more_itertools'')"
    using unsupported_type_raised_and_caught
      [OF a b c d e f, of ascii_upper "[]" Map.empty]
    by (simp add: import_from_def)
  from a b c d e f g unsupported_type_raised_and_caught
    [OF a b c d e f, of ascii_upper "[PyInt 10, PyStr (codepoints ''hello'')]" python311]
  show ?thesis by blast
qed

text \<open>
  C5 as stated fails: on Python 3.11, the version the notebook records, the import of
  \<open>batched\<close> from \<open>itertools\<close> raises \<open>ImportError\<close>, and the program catches it; the
  unsupported-type error is not the only error the program handles.
\<close>

theorem only_error_handling_counterexample:
  "caught_errors ascii_upper python311 =
     [ImportError ''itertools'', NotImplementedError ''Unsupported type''] \<and>
   \<not> set (caught_errors ascii_upper python311) \<subseteq> {NotImplementedError ''Unsupported type''}"
proof -
  have i: "fst (import_batched python311) = [ImportError ''itertools'']"
    by (simp add: import_batched_def import_from_def python311_def)
  have u: "caught (usage ascii_upper) = [NotImplementedError ''Unsupported type'']"
    by (simp add: usage_eq)
  from i u show ?thesis by (simp add: caught_errors_def)
qed

subsection \<open>The shelf\<close>

lemma shelve_cell_written:
  assumes "dumps p v = Inr bytes"
  shows "fst (shelve_cell p v d) = loads p bytes"
proof -
  let ?t = "case d ''myTest.db'' of None \<Rightarrow> Map.empty | Some t \<Rightarrow> t"
  let ?db = "\<lparr>filename = ''myTest.db'', dict = ?t, closed = False\<rparr>"
  have o: "shelve_open ''myTest.db'' d = (?db, d(''myTest.db'' \<mapsto> ?t))"
    by (simp add: shelve_open_def Let_def)
  let ?db' = "?db\<lparr>dict := ?t(''example_response'' \<mapsto> bytes)\<rparr>"
  from assms have w: "shelf_setitem p ''example_response'' v ?db = (Inr (), ?db')"
    by (simp add: shelf_setitem_def)
  let ?d2 = "(d(''myTest.db'' \<mapsto> ?t))(''myTest.db'' \<mapsto> ?t(''example_response'' \<mapsto> bytes))"
  have c: "shelf_close ?db' (d(''myTest.db'' \<mapsto> ?t)) = (?db'\<lparr>closed := True\<rparr>, ?d2)"
    by (simp add: shelf_close_def)
  let ?db2 = "\<lparr>filename = ''myTest.db'', dict = ?t(''example_response'' \<mapsto> bytes),
               closed = False\<rparr>"
  have o2: "fst (shelve_open ''myTest.db'' ?d2) = ?db2"
    by (simp add: shelve_open_def Let_def)
  have g: "shelf_getitem p ''example_response'' ?db2 = loads p bytes"
    by (simp add: shelf_getitem_def)
  from o w c o2 g show ?thesis
    by (simp add: shelve_cell_def split_beta Let_def)
qed

lemma shelve_cell_refused:
  assumes "dumps p v = Inl e"
  shows "fst (shelve_cell p v d) = Inl e"
  using assms
  by (simp add: shelve_cell_def shelve_open_def shelf_setitem_def shelf_close_def
      split_beta Let_def)

text \<open>
  C6, as the program has it. Whatever the disk held before, writing a value under
  \<open>example_response\<close>, closing the shelf, opening it again and reading the key returns
  the value written, for every value that pickle stores and restores unchanged.
\<close>

theorem shelve_roundtrip:
  assumes "dumps p v = Inr bytes" and "loads p bytes = Inr v"
  shows "fst (shelve_cell p v d) = Inr v"
  using shelve_cell_written [OF assms(1), of d] assms(2) by simp

theorem shelve_roundtrip_witness:
  "dumps pickle_values (PyDict [(PyStr (codepoints ''status''), PyInt 200)]) =
     Inr (PyDict [(PyStr (codepoints ''status''), PyInt 200)]) \<and>
   loads pickle_values (PyDict [(PyStr (codepoints ''status''), PyInt 200)]) =
     Inr (PyDict [(PyStr (codepoints ''status''), PyInt 200)]) \<and>
   fst (shelve_cell pickle_values (PyDict [(PyStr (codepoints ''status''), PyInt 200)])
          Map.empty) =
     Inr (PyDict [(PyStr (codepoints ''status''), PyInt 200)])"
proof -
  let ?v = "PyDict [(PyStr (codepoints ''status''), PyInt 200)]"
  have a: "dumps pickle_values ?v = Inr ?v"
    and b: "loads pickle_values ?v = Inr ?v"
    by (simp_all add: pickle_values_def)
  from a b shelve_roundtrip [OF a b, of Map.empty] show ?thesis by blast
qed

text \<open>
  C6 as stated fails for a value that pickle refuses: writing a function made by a
  lambda raises \<open>PicklingError\<close> inside the first block, and nothing is read back.
\<close>

theorem shelve_roundtrip_counterexample:
  "fst (shelve_cell pickle_values (PyFunction ''<lambda>'') Map.empty) =
     Inl (PicklingError ''Can't pickle <function <lambda>>'') \<and>
   fst (shelve_cell pickle_values (PyFunction ''<lambda>'') Map.empty) \<noteq>
     Inr (PyFunction ''<lambda>'')"
proof -
  have "dumps pickle_values (PyFunction ''<lambda>'') =
      Inl (PicklingError ''Can't pickle <function <lambda>>'')"
    by (simp add: pickle_values_def)
  then have "fst (shelve_cell pickle_values (PyFunction ''<lambda>'') Map.empty) =
      Inl (PicklingError ''Can't pickle <function <lambda>>'')"
    by (rule shelve_cell_refused)
  then show ?thesis by simp
qed

subsection \<open>The bound endpoint\<close>

lemma post_eq:
  "post network [''json'' \<mapsto> payload] s =
     (network \<lparr>http_method = ''POST'', url = graphql_url, args = [''json'' \<mapsto> payload]\<rparr>,
      s\<lparr>sent := sent s @
        [\<lparr>http_method = ''POST'', url = graphql_url, args = [''json'' \<mapsto> payload]\<rparr>]\<rparr>)"
proof -
  have "([''url'' \<mapsto> graphql_url] ++ [''json'' \<mapsto> payload])(''url'' := None) =
          [''json'' \<mapsto> payload]"
    by (auto simp: fun_eq_iff map_add_def)
  then show ?thesis
    by (simp add: post_def partial_def session_post_def session_request_def Let_def)
qed

text \<open>
  C7. Calling \<open>post\<close> with one payload and then with another, the same or not, sends
  exactly two requests, in that order, each a \<open>POST\<close> to \<open>graphql_url\<close> carrying its
  payload: a fresh session has sent two requests, both to the bound endpoint, whatever
  the network answers.
\<close>

theorem post_twice:
  "sent (snd (post network [''json'' \<mapsto> p2] (snd (post network [''json'' \<mapsto> p1] s)))) =
     sent s @ [\<lparr>http_method = ''POST'', url = graphql_url, args = [''json'' \<mapsto> p1]\<rparr>,
               \<lparr>http_method = ''POST'', url = graphql_url, args = [''json'' \<mapsto> p2]\<rparr>] \<and>
   length (sent (snd (post network [''json'' \<mapsto> p2]
                   (snd (post network [''json'' \<mapsto> p1] Session))))) = 2 \<and>
   map url (sent (snd (post network [''json'' \<mapsto> p2]
                   (snd (post network [''json'' \<mapsto> p1] Session))))) =
     [graphql_url, graphql_url]"
  by (simp add: post_eq Session_def)

subsection \<open>The cursor\<close>

lemma query_fresh:
  "query database connection_cursor =
     (case database (''SELECT 'HELLO WORLD'' @ [CHR 0x27]) of
        Inl e \<Rightarrow> (Inl e, connection_cursor)
      | Inr rs \<Rightarrow> (Inr [PyList rs], connection_cursor))"
  by (simp add: query_def cursor_execute_def cursor_fetchall_def connection_cursor_def
      split: sum.splits)

text \<open>
  C8. Whatever the database does with the statement, answer it or raise, the block
  calls the cursor's \<open>close\<close> exactly once: the count of calls is 1 after the cell, the
  printed rows are returned when the query succeeds, and the query's error leaves the
  block when it raises. More generally \<open>closing\<close> adds one call of \<open>close\<close> to whatever
  its body did, on both exits.
\<close>

theorem cursor_closed_once:
  "close_calls (snd (closing_cell database)) = 1 \<and>
   fst (closing_cell database) =
     (case database (''SELECT 'HELLO WORLD'' @ [CHR 0x27]) of
        Inl e \<Rightarrow> Inl e
      | Inr rs \<Rightarrow> Inr [PyList rs]) \<and>
   close_calls (snd (closing cursor_close c body)) = Suc (close_calls (snd (body c))) \<and>
   fst (closing cursor_close c body) = fst (body c)"
proof -
  have 0: "close_calls connection_cursor = 0"
    by (simp add: connection_cursor_def)
  have 1: "close_calls (snd (closing_cell database)) = 1"
    by (simp add: closing_cell_def closing_def query_fresh cursor_close_def 0
        split: sum.splits)
  have 2: "fst (closing_cell database) =
     (case database (''SELECT 'HELLO WORLD'' @ [CHR 0x27]) of
        Inl e \<Rightarrow> Inl e
      | Inr rs \<Rightarrow> Inr [PyList rs])"
    by (simp add: closing_cell_def closing_def query_fresh split: sum.splits)
  have 3: "close_calls (snd (closing cursor_close c body)) = Suc (close_calls (snd (body c)))"
    by (simp add: closing_def cursor_close_def split_beta)
  have 4: "fst (closing cursor_close c body) = fst (body c)"
    by (simp add: closing_def split_beta)
  from 1 2 3 4 show ?thesis by blast
qed


end
